theory Spec2Isabelle
  imports Main
begin

section \<open>The HTS file wrapper of \<^verbatim>\<open>include/seqan/hts_io/hts_file.h\<close>\<close>

text \<open>
  The header wraps htslib: class \<^verbatim>\<open>HtsFile\<close> keeps the pointers htslib hands out
  and one flag, and every free function is a few lines around one or two htslib calls.
  The embedding keeps that shape. The object is a record of pointers; htslib and the
  record transcoders of the neighbouring headers are parameters (a record of functions
  over an opaque world that holds whatever lives behind the pointers: streams, the disk,
  raw records, iterators); every library call is also written to a log, so that the
  order of calls can be stated. C ints are integers: the header does no arithmetic on
  them.
\<close>

subsection \<open>Pointers and C strings\<close>

text \<open>A pointer to a library object: \<open>None\<close> is \<^verbatim>\<open>nullptr\<close>.\<close>

type_synonym ptr = "nat option"

text \<open>
  A \<^verbatim>\<open>const char *\<close> whose identity matters (\<^verbatim>\<open>file_mode\<close>, which \<^verbatim>\<open>open()\<close>
  compares with \<^verbatim>\<open>==\<close>) is an address together with the text stored there; \<^verbatim>\<open>==\<close>
  on two of them compares the addresses. Strings that are only read (file names,
  regions) are modelled by their text.
\<close>

datatype c_str = C_str (addr: nat) (text_of: string)

subsection \<open>The object\<close>

record HtsFile =
  filename :: string
  fp :: ptr
  hdr :: ptr
  hts_record :: ptr
  hts_index :: ptr
  hts_iter :: ptr
  file_mode :: c_str
  at_end :: bool

subsection \<open>The collaborators\<close>

text \<open>
  htslib, as the header uses it; each function reads and updates the world \<open>'w\<close>.
  Status codes are C ints. The last three fields are the transcoders of
  \<^verbatim>\<open>hts_alignment_record.h\<close> and \<^verbatim>\<open>bam_alignment_record.h\<close>:
  \<^verbatim>\<open>HtsSequenceRecord::parse(bam1_t *)\<close>, \<^verbatim>\<open>parse(BamAlignmentRecord &, bam1_t *)\<close> and
  \<^verbatim>\<open>parse(bam1_t *, bam_hdr_t *, BamAlignmentRecord const &)\<close>; \<open>'s\<close> and \<open>'b\<close> are the
  two caller-side record types. The first field is the one fact of the program image
  that the header depends on: the address at which the string literal written on a
  given line of the header is stored. The language leaves open whether two literals
  with the same text share storage, so every occurrence has its own entry.
\<close>

record ('w, 's, 'b) env =
  literal :: "nat \<Rightarrow> nat"
  hts_open :: "string \<Rightarrow> string \<Rightarrow> 'w \<Rightarrow> ptr \<times> 'w"
  hts_close :: "ptr \<Rightarrow> 'w \<Rightarrow> int \<times> 'w"
  sam_hdr_read :: "ptr \<Rightarrow> 'w \<Rightarrow> ptr \<times> 'w"
  sam_hdr_write :: "ptr \<Rightarrow> ptr \<Rightarrow> 'w \<Rightarrow> int \<times> 'w"
  bam_hdr_dup :: "ptr \<Rightarrow> 'w \<Rightarrow> ptr \<times> 'w"
  bam_hdr_destroy :: "ptr \<Rightarrow> 'w \<Rightarrow> unit \<times> 'w"
  bam_init1 :: "'w \<Rightarrow> ptr \<times> 'w"
  bam_dup1 :: "ptr \<Rightarrow> 'w \<Rightarrow> ptr \<times> 'w"
  sam_index_load :: "ptr \<Rightarrow> string \<Rightarrow> 'w \<Rightarrow> ptr \<times> 'w"
  sam_index_load2 :: "ptr \<Rightarrow> string \<Rightarrow> string \<Rightarrow> 'w \<Rightarrow> ptr \<times> 'w"
  sam_index_build :: "string \<Rightarrow> int \<Rightarrow> 'w \<Rightarrow> int \<times> 'w"
  sam_index_build2 :: "string \<Rightarrow> string \<Rightarrow> int \<Rightarrow> 'w \<Rightarrow> int \<times> 'w"
  sam_itr_querys :: "ptr \<Rightarrow> ptr \<Rightarrow> string \<Rightarrow> 'w \<Rightarrow> ptr \<times> 'w"
  sam_itr_queryi :: "ptr \<Rightarrow> int \<Rightarrow> int \<Rightarrow> int \<Rightarrow> 'w \<Rightarrow> ptr \<times> 'w"
  sam_itr_destroy :: "ptr \<Rightarrow> 'w \<Rightarrow> unit \<times> 'w"
  sam_itr_next :: "ptr \<Rightarrow> ptr \<Rightarrow> ptr \<Rightarrow> 'w \<Rightarrow> int \<times> 'w"
  sam_read1 :: "ptr \<Rightarrow> ptr \<Rightarrow> ptr \<Rightarrow> 'w \<Rightarrow> int \<times> 'w"
  sam_write1 :: "ptr \<Rightarrow> ptr \<Rightarrow> ptr \<Rightarrow> 'w \<Rightarrow> int \<times> 'w"
  seq_parse :: "'w \<Rightarrow> ptr \<Rightarrow> 's \<Rightarrow> 's"
  bam_parse :: "'w \<Rightarrow> ptr \<Rightarrow> 'b \<Rightarrow> 'b"
  raw_parse :: "ptr \<Rightarrow> ptr \<Rightarrow> 'b \<Rightarrow> 'w \<Rightarrow> 'w"

text \<open>The library calls the header makes, with their arguments.\<close>

datatype call =
    Hts_open string string
  | Hts_close ptr
  | Sam_hdr_read ptr
  | Sam_hdr_write ptr ptr
  | Bam_hdr_dup ptr
  | Bam_hdr_destroy ptr
  | Bam_init1
  | Bam_dup1 ptr
  | Sam_index_load ptr string
  | Sam_index_load2 ptr string string
  | Sam_index_build string int
  | Sam_index_build2 string string int
  | Sam_itr_querys ptr ptr string
  | Sam_itr_queryi ptr int int int
  | Sam_itr_destroy ptr
  | Sam_itr_next ptr ptr ptr
  | Sam_read1 ptr ptr ptr
  | Sam_write1 ptr ptr ptr

text \<open>The state outside the object: the world and the log of calls, oldest first.\<close>

record 'w sys =
  world :: 'w
  calls :: "call list"

definition logged :: "call \<Rightarrow> ('w \<Rightarrow> 'a \<times> 'w) \<Rightarrow> 'w sys \<Rightarrow> 'a \<times> 'w sys" where
  "logged c m s =
     (case m (world s) of (r, w) \<Rightarrow> (r, \<lparr>world = w, calls = calls s @ [c]\<rparr>))"

text \<open>
  htslib's status convention, as the header itself reads it in \<^verbatim>\<open>readRecord\<close> and
  \<^verbatim>\<open>readRegion\<close> (\<^verbatim>\<open>>= 0\<close> is success): \<^verbatim>\<open>sam_read1\<close>, \<^verbatim>\<open>sam_itr_next\<close> and
  \<^verbatim>\<open>sam_write1\<close> return a non-negative number (for \<^verbatim>\<open>sam_write1\<close> on BAM and SAM
  output the number of bytes written) on success and a negative one on failure.
\<close>

definition hts_ok :: "int \<Rightarrow> bool" where
  "hts_ok r = (0 \<le> r)"

subsection \<open>Opening, construction, destruction\<close>

text \<open>
  What ends a call other than a return: \<^verbatim>\<open>SEQAN_FAIL\<close> aborts the process when
  \<^verbatim>\<open>hts_open\<close> fails, and \<^verbatim>\<open>sprintf\<close> into \<^verbatim>\<open>char region[50]\<close> writes past the
  buffer when the text and its terminating zero need more than 50 bytes.
\<close>

datatype fault = Open_failed | Buffer_overrun

text \<open>The string literal on the given line of the header, as a pointer.\<close>

definition lit :: "('w, 's, 'b) env \<Rightarrow> nat \<Rightarrow> string \<Rightarrow> c_str" where
  "lit e line t = C_str (literal e line) t"

text \<open>
  The function-local \<^verbatim>\<open>static const char * read_mode = "r"\<close> of \<^verbatim>\<open>open()\<close>,
  line 70.
\<close>

definition read_mode :: "('w, 's, 'b) env \<Rightarrow> c_str" where
  "read_mode e = lit e 70 ''r''"

text \<open>
  \<^verbatim>\<open>HtsFile::open()\<close>, lines 67-86. \<^verbatim>\<open>file_mode == read_mode\<close> compares the two
  pointers. The function has one \<^verbatim>\<open>return\<close>, of \<^verbatim>\<open>true\<close>; \<^verbatim>\<open>at_end\<close> is not
  assigned.
\<close>

definition HtsFile_open ::
  "('w, 's, 'b) env \<Rightarrow> HtsFile \<Rightarrow> 'w sys \<Rightarrow> fault + (bool \<times> HtsFile \<times> 'w sys)" where
  "HtsFile_open e file s =
     (case logged (Hts_open (filename file) (text_of (file_mode file)))
                  (hts_open e (filename file) (text_of (file_mode file))) s of
        (p, s1) \<Rightarrow>
          if p = None then Inl Open_failed
          else
            (case (if addr (file_mode file) = addr (read_mode e)
                   then (case logged (Sam_hdr_read p) (sam_hdr_read e p) s1 of
                           (h, s2) \<Rightarrow> (file\<lparr>fp := p, hdr := h\<rparr>, s2))
                   else (file\<lparr>fp := p\<rparr>, s1)) of
               (file2, s2) \<Rightarrow>
                 (case logged Bam_init1 (bam_init1 e) s2 of
                    (b, s3) \<Rightarrow> Inr (True, file2\<lparr>hts_record := b\<rparr>, s3))))"

text \<open>\<^verbatim>\<open>HtsFile(const char * mode = "r")\<close>, lines 42-43.\<close>

definition HtsFile_empty :: "c_str \<Rightarrow> HtsFile" where
  "HtsFile_empty mode =
     \<lparr>filename = [], fp = None, hdr = None, hts_record = None, hts_index = None,
      hts_iter = None, file_mode = mode, at_end = False\<rparr>"

text \<open>The same constructor called without argument: the default is the literal of
  line 42.\<close>

definition HtsFile_default :: "('w, 's, 'b) env \<Rightarrow> HtsFile" where
  "HtsFile_default e = HtsFile_empty (lit e 42 ''r'')"

text \<open>\<^verbatim>\<open>HtsFile(const char * f, const char * mode)\<close>, lines 52-56.\<close>

definition HtsFile_named ::
  "('w, 's, 'b) env \<Rightarrow> string \<Rightarrow> c_str \<Rightarrow> 'w sys \<Rightarrow> fault + (bool \<times> HtsFile \<times> 'w sys)" where
  "HtsFile_named e f mode s =
     HtsFile_open e
       \<lparr>filename = f, fp = None, hdr = None, hts_record = None, hts_index = None,
        hts_iter = None, file_mode = mode, at_end = False\<rparr> s"

text \<open>
  \<^verbatim>\<open>HtsFileIn\<close> and \<^verbatim>\<open>HtsFileOut\<close>, lines 89-107. Each constructor passes the
  literal written on its own line: \<^verbatim>\<open>"r"\<close> on lines 93 and 96, \<^verbatim>\<open>"wb"\<close> on lines
  103 and 106.
\<close>

definition HtsFileIn_empty :: "('w, 's, 'b) env \<Rightarrow> HtsFile" where
  "HtsFileIn_empty e = HtsFile_empty (lit e 93 ''r'')"

definition HtsFileIn_named ::
  "('w, 's, 'b) env \<Rightarrow> string \<Rightarrow> 'w sys \<Rightarrow> fault + (bool \<times> HtsFile \<times> 'w sys)" where
  "HtsFileIn_named e f s = HtsFile_named e f (lit e 96 ''r'') s"

definition HtsFileOut_empty :: "('w, 's, 'b) env \<Rightarrow> HtsFile" where
  "HtsFileOut_empty e = HtsFile_empty (lit e 103 ''wb'')"

definition HtsFileOut_named ::
  "('w, 's, 'b) env \<Rightarrow> string \<Rightarrow> 'w sys \<Rightarrow> fault + (bool \<times> HtsFile \<times> 'w sys)" where
  "HtsFileOut_named e f s = HtsFile_named e f (lit e 106 ''wb'') s"

text \<open>
  \<^verbatim>\<open>~HtsFile()\<close>, lines 61-65: two calls, no test of either pointer, no assignment
  to a field. The header has no other closing operation.
\<close>

definition HtsFile_destroy :: "('w, 's, 'b) env \<Rightarrow> HtsFile \<Rightarrow> 'w sys \<Rightarrow> 'w sys" where
  "HtsFile_destroy e file s =
     (case logged (Bam_hdr_destroy (hdr file)) (bam_hdr_destroy e (hdr file)) s of
        (u, s1) \<Rightarrow>
          (case logged (Hts_close (fp file)) (hts_close e (fp file)) s1 of
             (r, s2) \<Rightarrow> s2))"

text \<open>\<^verbatim>\<open>open(HtsFile &, const char *)\<close>, lines 121-126.\<close>

definition open_file ::
  "('w, 's, 'b) env \<Rightarrow> HtsFile \<Rightarrow> string \<Rightarrow> 'w sys \<Rightarrow> fault + (bool \<times> HtsFile \<times> 'w sys)" where
  "open_file e target f s = HtsFile_open e (target\<lparr>filename := f\<rparr>) s"

text \<open>\<^verbatim>\<open>open(HtsFile &, std::istream &)\<close>, lines 134-138.\<close>

definition open_stream ::
  "('w, 's, 'b) env \<Rightarrow> HtsFile \<Rightarrow> 'w sys \<Rightarrow> fault + (bool \<times> HtsFile \<times> 'w sys)" where
  "open_stream e target s = open_file e target ''-'' s"

subsection \<open>Copies\<close>

text \<open>\<^verbatim>\<open>copyHeader\<close>, lines 147-151, and \<^verbatim>\<open>copyRecord\<close>, lines 159-163.\<close>

definition copyHeader ::
  "('w, 's, 'b) env \<Rightarrow> HtsFile \<Rightarrow> HtsFile \<Rightarrow> 'w sys \<Rightarrow> HtsFile \<times> 'w sys" where
  "copyHeader e target source s =
     (case logged (Bam_hdr_dup (hdr source)) (bam_hdr_dup e (hdr source)) s of
        (h, s') \<Rightarrow> (target\<lparr>hdr := h\<rparr>, s'))"

definition copyRecord ::
  "('w, 's, 'b) env \<Rightarrow> HtsFile \<Rightarrow> HtsFile \<Rightarrow> 'w sys \<Rightarrow> HtsFile \<times> 'w sys" where
  "copyRecord e target source s =
     (case logged (Bam_dup1 (hts_record source)) (bam_dup1 e (hts_record source)) s of
        (b, s') \<Rightarrow> (target\<lparr>hts_record := b\<rparr>, s'))"

subsection \<open>The index\<close>

text \<open>\<^verbatim>\<open>loadIndex\<close>, lines 171-176 and 184-189.\<close>

definition loadIndex :: "('w, 's, 'b) env \<Rightarrow> HtsFile \<Rightarrow> 'w sys \<Rightarrow> bool \<times> HtsFile \<times> 'w sys" where
  "loadIndex e file s =
     (case logged (Sam_index_load (fp file) (filename file))
                  (sam_index_load e (fp file) (filename file)) s of
        (i, s') \<Rightarrow> (i \<noteq> None, file\<lparr>hts_index := i\<rparr>, s'))"

definition loadIndex_named ::
  "('w, 's, 'b) env \<Rightarrow> HtsFile \<Rightarrow> string \<Rightarrow> 'w sys \<Rightarrow> bool \<times> HtsFile \<times> 'w sys" where
  "loadIndex_named e file indexFileName s =
     (case logged (Sam_index_load2 (fp file) (filename file) indexFileName)
                  (sam_index_load2 e (fp file) (filename file) indexFileName) s of
        (i, s') \<Rightarrow> (i \<noteq> None, file\<lparr>hts_index := i\<rparr>, s'))"

text \<open>
  \<^verbatim>\<open>buildIndex\<close>, lines 199-203 and 213-217: \<^verbatim>\<open>!sam_index_build(...)\<close>; only
  \<^verbatim>\<open>file.filename\<close> is read, no field is assigned.
\<close>

definition buildIndex ::
  "('w, 's, 'b) env \<Rightarrow> HtsFile \<Rightarrow> int \<Rightarrow> 'w sys \<Rightarrow> bool \<times> HtsFile \<times> 'w sys" where
  "buildIndex e file min_shift s =
     (case logged (Sam_index_build (filename file) min_shift)
                  (sam_index_build e (filename file) min_shift) s of
        (r, s') \<Rightarrow> (r = 0, file, s'))"

definition buildIndex_named ::
  "('w, 's, 'b) env \<Rightarrow> HtsFile \<Rightarrow> string \<Rightarrow> int \<Rightarrow> 'w sys \<Rightarrow> bool \<times> HtsFile \<times> 'w sys" where
  "buildIndex_named e file indexFileName min_shift s =
     (case logged (Sam_index_build2 (filename file) indexFileName min_shift)
                  (sam_index_build2 e (filename file) indexFileName min_shift) s of
        (r, s') \<Rightarrow> (r = 0, file, s'))"

subsection \<open>Regions\<close>

text \<open>\<^verbatim>\<open>printf\<close>'s \<^verbatim>\<open>%d\<close>: an optional minus sign and the decimal digits.\<close>

fun digits :: "nat \<Rightarrow> string" where
  "digits n =
     (if n < 10 then [''0123456789'' ! n]
      else digits (n div 10) @ [''0123456789'' ! (n mod 10)])"

declare digits.simps [simp del]

definition decimal :: "int \<Rightarrow> string" where
  "decimal i = (if i < 0 then CHR ''-'' # digits (nat (- i)) else digits (nat i))"

text \<open>\<^verbatim>\<open>sprintf(region, "%s:%d-%d", chromosome, start, end)\<close>: the text written.\<close>

definition region_text :: "string \<Rightarrow> int \<Rightarrow> int \<Rightarrow> string" where
  "region_text chromosome start end' =
     chromosome @ '':'' @ decimal start @ ''-'' @ decimal end'"

text \<open>
  The \<^verbatim>\<open>if (file.hts_iter != nullptr) sam_itr_destroy(file.hts_iter);\<close> that opens
  each \<^verbatim>\<open>setRegion\<close>.
\<close>

definition destroy_iter :: "('w, 's, 'b) env \<Rightarrow> HtsFile \<Rightarrow> 'w sys \<Rightarrow> 'w sys" where
  "destroy_iter e file s =
     (if hts_iter file \<noteq> None
      then snd (logged (Sam_itr_destroy (hts_iter file)) (sam_itr_destroy e (hts_iter file)) s)
      else s)"

text \<open>\<^verbatim>\<open>setRegion(HtsFile &, const char * region)\<close>, lines 225-233.\<close>

definition setRegion ::
  "('w, 's, 'b) env \<Rightarrow> HtsFile \<Rightarrow> string \<Rightarrow> 'w sys \<Rightarrow> bool \<times> HtsFile \<times> 'w sys" where
  "setRegion e file region s =
     (case logged (Sam_itr_querys (hts_index file) (hdr file) region)
                  (sam_itr_querys e (hts_index file) (hdr file) region)
                  (destroy_iter e file s) of
        (i, s') \<Rightarrow> (i \<noteq> None, file\<lparr>hts_iter := i\<rparr>, s'))"

text \<open>
  \<^verbatim>\<open>setRegion(HtsFile &, const char * chromosome, int start, int end)\<close>, lines
  235-245. The iterator is destroyed before \<^verbatim>\<open>sprintf\<close> runs.
\<close>

definition setRegion_chr ::
  "('w, 's, 'b) env \<Rightarrow> HtsFile \<Rightarrow> string \<Rightarrow> int \<Rightarrow> int \<Rightarrow> 'w sys
     \<Rightarrow> fault + (bool \<times> HtsFile \<times> 'w sys)" where
  "setRegion_chr e file chromosome start end' s =
     (let s1 = destroy_iter e file s;
          region = region_text chromosome start end'
      in if 50 < length region + 1 then Inl Buffer_overrun
         else
           (case logged (Sam_itr_querys (hts_index file) (hdr file) region)
                        (sam_itr_querys e (hts_index file) (hdr file) region) s1 of
              (i, s') \<Rightarrow> Inr (i \<noteq> None, file\<lparr>hts_iter := i\<rparr>, s')))"

text \<open>\<^verbatim>\<open>setRegion(HtsFile &, int32_t tid, int32_t start, int32_t end)\<close>, lines 247-255.\<close>

definition setRegion_tid ::
  "('w, 's, 'b) env \<Rightarrow> HtsFile \<Rightarrow> int \<Rightarrow> int \<Rightarrow> int \<Rightarrow> 'w sys \<Rightarrow> bool \<times> HtsFile \<times> 'w sys" where
  "setRegion_tid e file tid start end' s =
     (case logged (Sam_itr_queryi (hts_index file) tid start end')
                  (sam_itr_queryi e (hts_index file) tid start end')
                  (destroy_iter e file s) of
        (i, s') \<Rightarrow> (i \<noteq> None, file\<lparr>hts_iter := i\<rparr>, s'))"

subsection \<open>Reading\<close>

text \<open>\<^verbatim>\<open>atEnd(HtsFileIn const &)\<close>, lines 263-267.\<close>

definition atEnd :: "HtsFile \<Rightarrow> bool" where
  "atEnd file = at_end file"

text \<open>\<^verbatim>\<open>readRecord(HtsFile &)\<close>, lines 275-285. Result, object, outside state.\<close>

definition readRecord :: "('w, 's, 'b) env \<Rightarrow> HtsFile \<Rightarrow> 'w sys \<Rightarrow> bool \<times> HtsFile \<times> 'w sys" where
  "readRecord e file s =
     (case logged (Sam_read1 (fp file) (hdr file) (hts_record file))
                  (sam_read1 e (fp file) (hdr file) (hts_record file)) s of
        (r, s') \<Rightarrow>
          if r \<ge> 0 then (True, file, s')
          else (False, file\<lparr>at_end := True\<rparr>, s'))"

text \<open>
  \<^verbatim>\<open>readRecord(HtsSequenceRecord &, HtsFile &)\<close>, lines 294-307. The caller's record
  comes back second.
\<close>

definition readRecord_seq ::
  "('w, 's, 'b) env \<Rightarrow> 's \<Rightarrow> HtsFile \<Rightarrow> 'w sys \<Rightarrow> bool \<times> 's \<times> HtsFile \<times> 'w sys" where
  "readRecord_seq e record file s =
     (case readRecord e file s of
        (ok, file', s') \<Rightarrow>
          if ok then (True, seq_parse e (world s') (hts_record file') record, file', s')
          else (False, record, file', s'))"

text \<open>\<^verbatim>\<open>readRecord(BamAlignmentRecord &, HtsFile &)\<close>, lines 315-328.\<close>

definition readRecord_bam ::
  "('w, 's, 'b) env \<Rightarrow> 'b \<Rightarrow> HtsFile \<Rightarrow> 'w sys \<Rightarrow> bool \<times> 'b \<times> HtsFile \<times> 'w sys" where
  "readRecord_bam e record file s =
     (case readRecord e file s of
        (ok, file', s') \<Rightarrow>
          if ok then (True, bam_parse e (world s') (hts_record file') record, file', s')
          else (False, record, file', s'))"

text \<open>\<^verbatim>\<open>readRegion(HtsSequenceRecord &, HtsFile &)\<close>, lines 337-352.\<close>

definition readRegion ::
  "('w, 's, 'b) env \<Rightarrow> 's \<Rightarrow> HtsFile \<Rightarrow> 'w sys \<Rightarrow> bool \<times> 's \<times> HtsFile \<times> 'w sys" where
  "readRegion e record file s =
     (case logged (Sam_itr_next (fp file) (hts_iter file) (hts_record file))
                  (sam_itr_next e (fp file) (hts_iter file) (hts_record file)) s of
        (r, s') \<Rightarrow>
          if r \<ge> 0 then (True, seq_parse e (world s') (hts_record file) record, file, s')
          else (False, record, file, s'))"

subsection \<open>Writing\<close>

text \<open>\<^verbatim>\<open>writeHeader(HtsFileOut &)\<close>, lines 360-364: \<^verbatim>\<open>!sam_hdr_write(...)\<close>.\<close>

definition writeHeader :: "('w, 's, 'b) env \<Rightarrow> HtsFile \<Rightarrow> 'w sys \<Rightarrow> bool \<times> HtsFile \<times> 'w sys" where
  "writeHeader e file s =
     (case logged (Sam_hdr_write (fp file) (hdr file))
                  (sam_hdr_write e (fp file) (hdr file)) s of
        (r, s') \<Rightarrow> (r = 0, file, s'))"

text \<open>\<^verbatim>\<open>writeRecord(HtsFile &)\<close>, lines 372-376: \<^verbatim>\<open>!sam_write1(...)\<close>.\<close>

definition writeRecord :: "('w, 's, 'b) env \<Rightarrow> HtsFile \<Rightarrow> 'w sys \<Rightarrow> bool \<times> HtsFile \<times> 'w sys" where
  "writeRecord e file s =
     (case logged (Sam_write1 (fp file) (hdr file) (hts_record file))
                  (sam_write1 e (fp file) (hdr file) (hts_record file)) s of
        (r, s') \<Rightarrow> (r = 0, file, s'))"

text \<open>
  \<^verbatim>\<open>writeRecord(HtsFile &, BamAlignmentRecord const &)\<close>, lines 384-389: the record is
  transcoded into the raw buffer, then written.
\<close>

definition writeRecord_bam ::
  "('w, 's, 'b) env \<Rightarrow> HtsFile \<Rightarrow> 'b \<Rightarrow> 'w sys \<Rightarrow> bool \<times> HtsFile \<times> 'w sys" where
  "writeRecord_bam e file record s =
     writeRecord e file (s\<lparr>world := raw_parse e (hts_record file) (hdr file) record (world s)\<rparr>)"

subsection \<open>Sequences of operations on one object\<close>

text \<open>
  Every operation of the header that takes the object by non-const reference (and
  \<^verbatim>\<open>atEnd\<close>), with its other arguments. \<open>CopyHeader src\<close> is
  \<^verbatim>\<open>copyHeader(object, src)\<close>.
\<close>

datatype ('s, 'b) op =
    Open | Open_file string | Open_stream
  | CopyHeader HtsFile | CopyRecord HtsFile
  | LoadIndex | LoadIndex_named string
  | BuildIndex int | BuildIndex_named string int
  | SetRegion string | SetRegion_chr string int int | SetRegion_tid int int int
  | AtEnd
  | ReadRecord | ReadRecord_seq 's | ReadRecord_bam 'b | ReadRegion 's
  | WriteHeader | WriteRecord | WriteRecord_bam 'b

text \<open>One operation: what it returns (\<open>True\<close> for a \<^verbatim>\<open>void\<close> function), the object
  and the outside state after it.\<close>

fun apply_op ::
  "('w, 's, 'b) env \<Rightarrow> ('s, 'b) op \<Rightarrow> HtsFile \<Rightarrow> 'w sys \<Rightarrow> fault + (bool \<times> HtsFile \<times> 'w sys)" where
  "apply_op e Open file s = HtsFile_open e file s"
| "apply_op e (Open_file f) file s = open_file e file f s"
| "apply_op e Open_stream file s = open_stream e file s"
| "apply_op e (CopyHeader src) file s =
     (case copyHeader e file src s of (file', s') \<Rightarrow> Inr (True, file', s'))"
| "apply_op e (CopyRecord src) file s =
     (case copyRecord e file src s of (file', s') \<Rightarrow> Inr (True, file', s'))"
| "apply_op e LoadIndex file s = Inr (loadIndex e file s)"
| "apply_op e (LoadIndex_named i) file s = Inr (loadIndex_named e file i s)"
| "apply_op e (BuildIndex m) file s = Inr (buildIndex e file m s)"
| "apply_op e (BuildIndex_named i m) file s = Inr (buildIndex_named e file i m s)"
| "apply_op e (SetRegion r) file s = Inr (setRegion e file r s)"
| "apply_op e (SetRegion_chr c a b) file s = setRegion_chr e file c a b s"
| "apply_op e (SetRegion_tid t a b) file s = Inr (setRegion_tid e file t a b s)"
| "apply_op e AtEnd file s = Inr (atEnd file, file, s)"
| "apply_op e ReadRecord file s = Inr (readRecord e file s)"
| "apply_op e (ReadRecord_seq r) file s =
     (case readRecord_seq e r file s of (ok, r', file', s') \<Rightarrow> Inr (ok, file', s'))"
| "apply_op e (ReadRecord_bam r) file s =
     (case readRecord_bam e r file s of (ok, r', file', s') \<Rightarrow> Inr (ok, file', s'))"
| "apply_op e (ReadRegion r) file s =
     (case readRegion e r file s of (ok, r', file', s') \<Rightarrow> Inr (ok, file', s'))"
| "apply_op e WriteHeader file s = Inr (writeHeader e file s)"
| "apply_op e WriteRecord file s = Inr (writeRecord e file s)"
| "apply_op e (WriteRecord_bam r) file s = Inr (writeRecord_bam e file r s)"

text \<open>A caller's straight-line sequence of operations; a fault ends it.\<close>

fun run ::
  "('w, 's, 'b) env \<Rightarrow> ('s, 'b) op list \<Rightarrow> HtsFile \<Rightarrow> 'w sys \<Rightarrow> fault + (HtsFile \<times> 'w sys)" where
  "run e [] file s = Inr (file, s)"
| "run e (x # xs) file s =
     (case apply_op e x file s of
        Inl f \<Rightarrow> Inl f
      | Inr (ok, file', s') \<Rightarrow> run e xs file' s')"

fun is_readRecord :: "('s, 'b) op \<Rightarrow> bool" where
  "is_readRecord ReadRecord = True"
| "is_readRecord (ReadRecord_seq r) = True"
| "is_readRecord (ReadRecord_bam r) = True"
| "is_readRecord x = False"

text \<open>A caller's loop of \<open>n\<close> consecutive \<^verbatim>\<open>readRecord(file)\<close> calls, with the results.\<close>

fun readRecord_times ::
  "('w, 's, 'b) env \<Rightarrow> nat \<Rightarrow> HtsFile \<Rightarrow> 'w sys \<Rightarrow> bool list \<times> HtsFile \<times> 'w sys" where
  "readRecord_times e 0 file s = ([], file, s)"
| "readRecord_times e (Suc n) file s =
     (case readRecord e file s of
        (ok, file', s') \<Rightarrow>
          (case readRecord_times e n file' s' of
             (oks, file'', s'') \<Rightarrow> (ok # oks, file'', s'')))"

section \<open>Region strings\<close>

text \<open>
  Modelled from the spec: the region grammar that htslib's \<^verbatim>\<open>sam_itr_querys\<close> reads
  (htslib is not part of the repository). The public string form is \<^verbatim>\<open>NAME\<close>,
  \<^verbatim>\<open>NAME:START\<close> or \<^verbatim>\<open>NAME:START-END\<close>, 1-based and inclusive, and is converted
  to a 0-based half-open interval before the index is queried: \<^verbatim>\<open>START\<close> becomes
  \<open>START - 1\<close>, \<^verbatim>\<open>END\<close> stays, and a missing bound leaves the interval open. The
  coordinates follow the last colon.
\<close>

definition digit_value :: "char \<Rightarrow> nat option" where
  "digit_value c =
     (if c \<in> set ''0123456789'' then Some (of_char c - 48) else None)"

fun parse_digits :: "nat \<Rightarrow> string \<Rightarrow> nat option" where
  "parse_digits acc [] = Some acc"
| "parse_digits acc (c # cs) =
     (case digit_value c of
        None \<Rightarrow> None
      | Some d \<Rightarrow> parse_digits (10 * acc + d) cs)"

definition parse_decimal :: "string \<Rightarrow> nat option" where
  "parse_decimal cs = (if cs = [] then None else parse_digits 0 cs)"

definition parse_region :: "string \<Rightarrow> (string \<times> int \<times> int option) option" where
  "parse_region r =
     (if CHR '':'' \<notin> set r then Some (r, 0, None)
      else
        let coords = rev (takeWhile (\<lambda>c. c \<noteq> CHR '':'') (rev r));
            name = take (length r - length coords - 1) r;
            first = takeWhile (\<lambda>c. c \<noteq> CHR ''-'') coords;
            rest = drop (length first + 1) coords
        in (case parse_decimal first of
              None \<Rightarrow> None
            | Some b \<Rightarrow>
                if CHR ''-'' \<notin> set coords then Some (name, int b - 1, None)
                else (case parse_decimal rest of
                        None \<Rightarrow> None
                      | Some t \<Rightarrow> Some (name, int b - 1, Some (int t)))))"

section \<open>A simulated htslib\<close>

text \<open>
  A small stand-in for the library (htslib is not part of the repository), to run the
  wrapper on concrete inputs. It follows the interface of the spec's section 6 and
  htslib's status codes. One file is on disk. An alignment is its reference id and its
  0-based half-open interval; the file holds alignments and, as a SAM text file may,
  lines that do not parse. Opening for reading puts the stream at the start of the
  content, opening for writing starts an empty output; the index covers the alignments
  of the content. A query needs an index (and, by name, a
  header) and a reference of the file; otherwise no iterator is made. The library's
  objects get fixed addresses: stream 1, header 2, raw record 3, index 4, iterator 5,
  duplicates 6 and 7.
\<close>

type_synonym aln = "int \<times> int \<times> int"

datatype item = Rec aln | Garbled

record sim =
  present :: bool
  header_ok :: bool
  refs :: "string list"
  content :: "item list"
  index_file :: bool
  stream :: "item list"
  cursor :: "aln list"
  raw :: aln
  write_code :: int
  written :: "aln list"

fun ref_id :: "string list \<Rightarrow> string \<Rightarrow> int option" where
  "ref_id [] name = None"
| "ref_id (x # xs) name =
     (if x = name then Some 0 else map_option (\<lambda>i. i + 1) (ref_id xs name))"

text \<open>The alignment \<open>[b, t)\<close> on reference \<open>i\<close> overlaps the queried interval.\<close>

fun overlaps :: "int \<Rightarrow> int \<Rightarrow> int option \<Rightarrow> aln \<Rightarrow> bool" where
  "overlaps tid beg None (i, b, t) = (i = tid \<and> beg < t)"
| "overlaps tid beg (Some end') (i, b, t) = (i = tid \<and> beg < t \<and> b < end')"

fun alns :: "item list \<Rightarrow> aln list" where
  "alns [] = []"
| "alns (Rec a # xs) = a # alns xs"
| "alns (Garbled # xs) = alns xs"

definition sim_querys :: "ptr \<Rightarrow> ptr \<Rightarrow> string \<Rightarrow> sim \<Rightarrow> ptr \<times> sim" where
  "sim_querys idx h region w =
     (if idx = None \<or> h = None then (None, w)
      else
        (case parse_region region of
           None \<Rightarrow> (None, w)
         | Some (name, beg, end') \<Rightarrow>
             (case ref_id (refs w) name of
                None \<Rightarrow> (None, w)
              | Some tid \<Rightarrow> (Some 5, w\<lparr>cursor := filter (overlaps tid beg end') (alns (content w))\<rparr>))))"

definition sim_queryi :: "ptr \<Rightarrow> int \<Rightarrow> int \<Rightarrow> int \<Rightarrow> sim \<Rightarrow> ptr \<times> sim" where
  "sim_queryi idx tid beg end' w =
     (if idx = None \<or> tid < 0 \<or> int (length (refs w)) \<le> tid then (None, w)
      else (Some 5, w\<lparr>cursor := filter (overlaps tid beg (Some end')) (alns (content w))\<rparr>))"

definition sim_itr_next :: "ptr \<Rightarrow> ptr \<Rightarrow> ptr \<Rightarrow> sim \<Rightarrow> int \<times> sim" where
  "sim_itr_next p i b w =
     (case cursor w of
        [] \<Rightarrow> (- 1, w)
      | a # rest \<Rightarrow> (0, w\<lparr>cursor := rest, raw := a\<rparr>))"

text \<open>
  A sequential read returns 0 and fills the raw record; at the end of the stream it
  returns -1, at every call; on a line that does not parse it returns -2 and the stream
  is past that line.
\<close>

definition sim_read1 :: "ptr \<Rightarrow> ptr \<Rightarrow> ptr \<Rightarrow> sim \<Rightarrow> int \<times> sim" where
  "sim_read1 p h b w =
     (case stream w of
        [] \<Rightarrow> (- 1, w)
      | Garbled # rest \<Rightarrow> (- 2, w\<lparr>stream := rest\<rparr>)
      | Rec a # rest \<Rightarrow> (0, w\<lparr>stream := rest, raw := a\<rparr>))"

text \<open>
  A write that succeeds appends the raw record to the output and returns the number of
  bytes it took; one that fails returns the negative code and writes nothing.
\<close>

definition sim_write1 :: "ptr \<Rightarrow> ptr \<Rightarrow> ptr \<Rightarrow> sim \<Rightarrow> int \<times> sim" where
  "sim_write1 p h b w =
     (if 0 \<le> write_code w then (write_code w, w\<lparr>written := written w @ [raw w]\<rparr>)
      else (write_code w, w))"

text \<open>
  Two program images. In the first the toolchain has merged the literals of equal text:
  every \<^verbatim>\<open>"r"\<close> of the header (lines 42, 70, 93, 96) is at address 1 and every
  \<^verbatim>\<open>"wb"\<close> (lines 103, 106) at address 2. In the second each literal is stored on its
  own, at the address that is its line number.
\<close>

definition pooled :: "nat \<Rightarrow> nat" where
  "pooled line = (if line = 103 \<or> line = 106 then 2 else 1)"

definition apart :: "nat \<Rightarrow> nat" where
  "apart line = line"

definition sim_env :: "(sim, aln, aln) env" where
  "sim_env =
     \<lparr>literal = pooled,
      hts_open = (\<lambda>name mode w.
        if take 1 mode = ''w'' then (Some 1, w\<lparr>written := []\<rparr>)
        else if present w then (Some 1, w\<lparr>stream := content w\<rparr>)
        else (None, w)),
      hts_close = (\<lambda>p w. (0, w)),
      sam_hdr_read = (\<lambda>p w. (if header_ok w then Some 2 else None, w)),
      sam_hdr_write = (\<lambda>p h w. (0, w)),
      bam_hdr_dup = (\<lambda>h w. (if h = None then None else Some 6, w)),
      bam_hdr_destroy = (\<lambda>h w. ((), w)),
      bam_init1 = (\<lambda>w. (Some 3, w)),
      bam_dup1 = (\<lambda>b w. (if b = None then None else Some 7, w)),
      sam_index_load = (\<lambda>p name w. (if index_file w then Some 4 else None, w)),
      sam_index_load2 = (\<lambda>p name i w. (if index_file w then Some 4 else None, w)),
      sam_index_build = (\<lambda>name m w. if present w then (0, w\<lparr>index_file := True\<rparr>) else (- 1, w)),
      sam_index_build2 = (\<lambda>name i m w. if present w then (0, w\<lparr>index_file := True\<rparr>) else (- 1, w)),
      sam_itr_querys = sim_querys,
      sam_itr_queryi = sim_queryi,
      sam_itr_destroy = (\<lambda>i w. ((), w\<lparr>cursor := []\<rparr>)),
      sam_itr_next = sim_itr_next,
      sam_read1 = sim_read1,
      sam_write1 = sim_write1,
      seq_parse = (\<lambda>w b r. raw w),
      bam_parse = (\<lambda>w b r. raw w),
      raw_parse = (\<lambda>b h r w. w\<lparr>raw := r\<rparr>)\<rparr>"

definition apart_env :: "(sim, aln, aln) env" where
  "apart_env = sim_env\<lparr>literal := apart\<rparr>"

text \<open>
  The file of the spec's scenario: \<^verbatim>\<open>test.bam\<close> with the one reference \<^verbatim>\<open>chr1\<close>; it
  holds one alignment, the single base at 0-based position 999, and a written record
  takes 40 bytes.
\<close>

definition test_bam :: sim where
  "test_bam =
     \<lparr>present = True, header_ok = True, refs = [''chr1''],
      content = [Rec (0, 999, 1000)], index_file = True,
      stream = [], cursor = [], raw = (0, 0, 0), write_code = 40, written = []\<rparr>"

text \<open>
  The same file once opened (the stream at its start), with an unreadable header block,
  with no index beside it, and as SAM text whose first line does not parse.
\<close>

definition opened_bam :: sim where
  "opened_bam = test_bam\<lparr>stream := [Rec (0, 999, 1000)]\<rparr>"

definition damaged_bam :: sim where
  "damaged_bam = test_bam\<lparr>header_ok := False\<rparr>"

definition unindexed_bam :: sim where
  "unindexed_bam = test_bam\<lparr>index_file := False\<rparr>"

definition garbled_sam :: sim where
  "garbled_sam = test_bam\<lparr>content := [Garbled, Rec (0, 999, 1000)]\<rparr>"

text \<open>
  The object after \<^verbatim>\<open>HtsFileIn("test.bam")\<close> in the image with merged literals, the
  same after \<^verbatim>\<open>loadIndex\<close>, and an output object after \<^verbatim>\<open>HtsFileOut("out.bam")\<close> and
  \<^verbatim>\<open>copyHeader\<close>.
\<close>

definition opened_file :: HtsFile where
  "opened_file =
     \<lparr>filename = ''test.bam'', fp = Some 1, hdr = Some 2, hts_record = Some 3,
      hts_index = None, hts_iter = None, file_mode = C_str 1 ''r'', at_end = False\<rparr>"

definition indexed_file :: HtsFile where
  "indexed_file = opened_file\<lparr>hts_index := Some 4\<rparr>"

definition output_file :: HtsFile where
  "output_file =
     \<lparr>filename = ''out.bam'', fp = Some 1, hdr = Some 6, hts_record = Some 3,
      hts_index = None, hts_iter = None, file_mode = C_str 2 ''wb'', at_end = False\<rparr>"

text \<open>A contig name of 42 characters, which no reference of \<^verbatim>\<open>test.bam\<close> bears.\<close>

definition long_contig :: string where
  "long_contig = ''scaffold_000123_unplaced_genomic_contig_v2''"

definition start :: "'w \<Rightarrow> 'w sys" where
  "start w = \<lparr>world = w, calls = []\<rparr>"

section \<open>What one call does\<close>

lemma logged_eq:
  "logged c m s = (fst (m (world s)), \<lparr>world = snd (m (world s)), calls = calls s @ [c]\<rparr>)"
  by (simp add: logged_def split: prod.splits)

lemma readRecord_eq:
  "readRecord e file s =
     (0 \<le> fst (sam_read1 e (fp file) (hdr file) (hts_record file) (world s)),
      (if 0 \<le> fst (sam_read1 e (fp file) (hdr file) (hts_record file) (world s))
       then file else file\<lparr>at_end := True\<rparr>),
      \<lparr>world = snd (sam_read1 e (fp file) (hdr file) (hts_record file) (world s)),
       calls = calls s @ [Sam_read1 (fp file) (hdr file) (hts_record file)]\<rparr>)"
  by (simp add: readRecord_def logged_eq)

lemma destroy_iter_calls:
  "calls (destroy_iter e file s) =
     calls s @ (if hts_iter file \<noteq> None then [Sam_itr_destroy (hts_iter file)] else [])"
  by (simp add: destroy_iter_def logged_eq)

lemma setRegion_eq:
  "setRegion e file region s =
     (fst (sam_itr_querys e (hts_index file) (hdr file) region (world (destroy_iter e file s)))
        \<noteq> None,
      file\<lparr>hts_iter := fst (sam_itr_querys e (hts_index file) (hdr file) region
                                (world (destroy_iter e file s)))\<rparr>,
      \<lparr>world = snd (sam_itr_querys e (hts_index file) (hdr file) region
                      (world (destroy_iter e file s))),
       calls = calls (destroy_iter e file s)
                 @ [Sam_itr_querys (hts_index file) (hdr file) region]\<rparr>)"
  by (simp add: setRegion_def logged_eq)

lemma setRegion_tid_eq:
  "setRegion_tid e file tid a b s =
     (fst (sam_itr_queryi e (hts_index file) tid a b (world (destroy_iter e file s))) \<noteq> None,
      file\<lparr>hts_iter := fst (sam_itr_queryi e (hts_index file) tid a b
                                (world (destroy_iter e file s)))\<rparr>,
      \<lparr>world = snd (sam_itr_queryi e (hts_index file) tid a b (world (destroy_iter e file s))),
       calls = calls (destroy_iter e file s) @ [Sam_itr_queryi (hts_index file) tid a b]\<rparr>)"
  by (simp add: setRegion_tid_def logged_eq)

lemma setRegion_chr_eq:
  "setRegion_chr e file c a b s =
     (if 50 < length (region_text c a b) + 1 then Inl Buffer_overrun
      else Inr (setRegion e file (region_text c a b) s))"
  by (simp add: setRegion_chr_def setRegion_def Let_def split: prod.splits)

lemma setRegion_chr_overrun:
  "50 \<le> length (region_text c a b) \<Longrightarrow> setRegion_chr e file c a b s = Inl Buffer_overrun"
  by (simp add: setRegion_chr_eq)

lemma HtsFile_open_at_end:
  "HtsFile_open e file s = Inr (ok, file', s') \<Longrightarrow> at_end file' = at_end file"
  by (auto simp add: HtsFile_open_def logged_eq split: if_splits)

lemma HtsFile_open_other_mode:
  "addr (file_mode file) \<noteq> addr (read_mode e) \<Longrightarrow> HtsFile_open e file s = Inr (ok, file', s')
     \<Longrightarrow> hdr file' = hdr file"
  by (auto simp add: HtsFile_open_def logged_eq split: if_splits)

text \<open>The fixtures are what the wrapper itself produces on the simulated library.\<close>

lemma input_fixtures:
  "HtsFileIn_named sim_env ''test.bam'' (start test_bam) =
     Inr (True, opened_file,
          \<lparr>world = opened_bam,
           calls = [Hts_open ''test.bam'' ''r'', Sam_hdr_read (Some 1), Bam_init1]\<rparr>)"
  "loadIndex sim_env opened_file (start opened_bam) =
     (True, indexed_file,
      \<lparr>world = opened_bam, calls = [Sam_index_load (Some 1) ''test.bam'']\<rparr>)"
  by (simp_all add: HtsFileIn_named_def HtsFile_named_def HtsFile_open_def logged_eq sim_env_def
      start_def test_bam_def opened_bam_def opened_file_def read_mode_def lit_def pooled_def loadIndex_def
      indexed_file_def)

lemma output_fixtures:
  "HtsFileOut_named sim_env ''out.bam'' (start test_bam) =
     Inr (True, output_file\<lparr>hdr := None\<rparr>,
          \<lparr>world = test_bam, calls = [Hts_open ''out.bam'' ''wb'', Bam_init1]\<rparr>)"
  "copyHeader sim_env (output_file\<lparr>hdr := None\<rparr>) opened_file (start test_bam) =
     (output_file, \<lparr>world = test_bam, calls = [Bam_hdr_dup (Some 2)]\<rparr>)"
  by (simp_all add: HtsFileOut_named_def HtsFile_named_def HtsFile_open_def logged_eq sim_env_def
      start_def test_bam_def opened_bam_def output_file_def read_mode_def lit_def pooled_def copyHeader_def
      opened_file_def)

section \<open>Writing a record\<close>

lemma writeRecord_status:
  "fst (writeRecord e file s) =
     (fst (sam_write1 e (fp file) (hdr file) (hts_record file) (world s)) = 0)"
  by (simp add: writeRecord_def logged_eq)

text \<open>
  C1. The claim: \<^verbatim>\<open>writeRecord\<close> returns true when \<^verbatim>\<open>sam_write1\<close> succeeds and false
  exactly when the write fails. The code returns \<^verbatim>\<open>!sam_write1(...)\<close>, which is true
  only for the status 0, while a successful \<^verbatim>\<open>sam_write1\<close> reports the bytes it wrote.
  On the simulated file, writing the alignment \<open>(0, 999, 1000)\<close> through
  \<^verbatim>\<open>writeRecord(file, record)\<close> puts the record in the output, \<^verbatim>\<open>sam_write1\<close> returns
  40, a success by the library's convention, and \<^verbatim>\<open>writeRecord\<close> returns false.
\<close>

theorem writeRecord_false_after_successful_write:
  "writeRecord_bam sim_env output_file (0, 999, 1000) (start test_bam) =
     (False, output_file,
      \<lparr>world = test_bam\<lparr>raw := (0, 999, 1000), written := [(0, 999, 1000)]\<rparr>,
       calls = [Sam_write1 (Some 1) (Some 6) (Some 3)]\<rparr>)
   \<and> fst (sam_write1 sim_env (Some 1) (Some 6) (Some 3) (test_bam\<lparr>raw := (0, 999, 1000)\<rparr>))
       = 40
   \<and> hts_ok 40"
  by (simp add: writeRecord_bam_def writeRecord_def logged_eq sim_env_def sim_write1_def
      start_def opened_bam_def test_bam_def output_file_def hts_ok_def)

section \<open>Opening for reading\<close>

lemma HtsFile_open_result:
  "HtsFile_open e file s = Inr (ok, file', s') \<Longrightarrow> ok \<and> fp file' \<noteq> None"
  by (auto simp add: HtsFile_open_def logged_eq split: if_splits)

text \<open>
  C2, as the code has it. When an open has loaded the header, that is, when the call
  consisted of \<^verbatim>\<open>hts_open\<close>, \<^verbatim>\<open>sam_hdr_read\<close> and \<^verbatim>\<open>bam_init1\<close>, it has returned
  true and \<^verbatim>\<open>hdr\<close> holds exactly what \<^verbatim>\<open>sam_hdr_read\<close> returned on the stream just
  opened: the result is stored unchecked, so the header is non-null after the open
  exactly when the library produced one.
\<close>

theorem open_stores_header_unchecked:
  assumes "open_file e target name s = Inr (ok, target', s')"
    and "calls s' = calls s
           @ [Hts_open name (text_of (file_mode target)), Sam_hdr_read p, Bam_init1]"
  shows "ok \<and> fp target' = p \<and> p \<noteq> None
    \<and> hdr target' =
        fst (sam_hdr_read e p (snd (hts_open e name (text_of (file_mode target)) (world s))))
    \<and> (hdr target' \<noteq> None) =
        (fst (sam_hdr_read e p (snd (hts_open e name (text_of (file_mode target)) (world s))))
           \<noteq> None)"
  using assms
  by (auto simp add: open_file_def HtsFile_open_def logged_eq split: if_splits)

theorem open_stores_header_unchecked_witness:
  "open_file sim_env (HtsFileIn_empty sim_env) ''test.bam'' (start test_bam) =
     Inr (True, opened_file,
          \<lparr>world = opened_bam,
           calls = [Hts_open ''test.bam'' ''r'', Sam_hdr_read (Some 1), Bam_init1]\<rparr>)
   \<and> text_of (file_mode (HtsFileIn_empty sim_env)) = ''r''
   \<and> fp opened_file = Some 1
   \<and> hdr opened_file = Some 2
   \<and> fst (sam_hdr_read sim_env (Some 1) opened_bam) = Some 2"
proof -
  have o: "open_file sim_env (HtsFileIn_empty sim_env) ''test.bam'' (start test_bam) =
     Inr (True, opened_file,
          \<lparr>world = opened_bam,
           calls = [Hts_open ''test.bam'' ''r'', Sam_hdr_read (Some 1), Bam_init1]\<rparr>)"
    by (simp add: open_file_def HtsFileIn_empty_def HtsFile_empty_def HtsFile_open_def
        logged_eq read_mode_def lit_def pooled_def sim_env_def start_def test_bam_def
        opened_bam_def opened_file_def)
  have t: "text_of (file_mode (HtsFileIn_empty sim_env)) = ''r''"
    by (simp add: HtsFileIn_empty_def HtsFile_empty_def lit_def)
  have c: "calls \<lparr>world = opened_bam,
             calls = [Hts_open ''test.bam'' ''r'', Sam_hdr_read (Some 1), Bam_init1]\<rparr> =
      calls (start test_bam)
        @ [Hts_open ''test.bam'' (text_of (file_mode (HtsFileIn_empty sim_env))),
           Sam_hdr_read (Some 1), Bam_init1]"
    by (simp add: t start_def)
  have h: "fst (sam_hdr_read sim_env (Some 1) opened_bam) = Some 2"
    by (simp add: sim_env_def opened_bam_def test_bam_def)
  show ?thesis
    using o t h open_stores_header_unchecked [OF o c]
    by (simp add: sim_env_def start_def test_bam_def opened_bam_def opened_file_def)
qed

text \<open>
  C2 as stated fails. \<^verbatim>\<open>HtsFileIn("test.bam")\<close> on a file whose header block cannot be
  read, in the image with merged literals: \<^verbatim>\<open>sam_hdr_read\<close> is called and returns
  null, the open returns true and the header is null. And \<^verbatim>\<open>HtsFileIn("test.bam")\<close> on
  the good file, in the image where each literal is stored on its own: the pointers
  differ, \<^verbatim>\<open>sam_hdr_read\<close> is not called, the open returns true and the header is null.
\<close>

theorem open_without_header_counterexample:
  "HtsFileIn_named sim_env ''test.bam'' (start damaged_bam) =
     Inr (True, opened_file\<lparr>hdr := None\<rparr>,
          \<lparr>world = damaged_bam\<lparr>stream := [Rec (0, 999, 1000)]\<rparr>,
           calls = [Hts_open ''test.bam'' ''r'', Sam_hdr_read (Some 1), Bam_init1]\<rparr>)
   \<and> HtsFileIn_named apart_env ''test.bam'' (start test_bam) =
     Inr (True, opened_file\<lparr>hdr := None, file_mode := C_str 96 ''r''\<rparr>,
          \<lparr>world = opened_bam, calls = [Hts_open ''test.bam'' ''r'', Bam_init1]\<rparr>)
   \<and> hdr (opened_file\<lparr>hdr := None\<rparr>) = None
   \<and> hdr (opened_file\<lparr>hdr := None, file_mode := C_str 96 ''r''\<rparr>) = None"
  by (simp add: HtsFileIn_named_def HtsFile_named_def HtsFile_open_def logged_eq sim_env_def
      apart_env_def apart_def start_def damaged_bam_def test_bam_def opened_bam_def
      opened_file_def read_mode_def lit_def pooled_def)

text \<open>On the file with the unreadable header the outcome does not depend on where the
  literals are stored.\<close>

lemma damaged_header_is_null:
  "\<exists>f s. HtsFileIn_named (sim_env\<lparr>literal := l\<rparr>) ''test.bam'' (start damaged_bam)
            = Inr (True, f, s) \<and> hdr f = None"
  by (simp add: HtsFileIn_named_def HtsFile_named_def HtsFile_open_def logged_eq sim_env_def
      start_def damaged_bam_def test_bam_def read_mode_def lit_def)

section \<open>Regions\<close>

subsection \<open>Printing and reading coordinates\<close>

lemma digit_value_nth: "n < 10 \<Longrightarrow> digit_value (''0123456789'' ! n) = Some n"
proof -
  have "\<forall>k \<in> set [0..<10]. digit_value (''0123456789'' ! k) = Some k"
    by code_simp
  then show "n < 10 \<Longrightarrow> digit_value (''0123456789'' ! n) = Some n"
    by simp
qed

lemma takeWhile_upto:
  "\<forall>x \<in> set xs. x \<noteq> c \<Longrightarrow> takeWhile (\<lambda>x. x \<noteq> c) (xs @ c # ys) = xs"
  by (induction xs) auto

lemma nth_digit_in: "n < 10 \<Longrightarrow> ''0123456789'' ! n \<in> set ''0123456789''"
  using nth_mem [of n "''0123456789''"] by simp

lemma digits_chars: "set (digits n) \<subseteq> set ''0123456789''"
proof (induction n rule: digits.induct)
  case (1 n)
  show ?case
  proof (cases "n < 10")
    case True
    then show ?thesis
      using nth_digit_in [of n] by (subst digits.simps) simp
  next
    case False
    then show ?thesis
      using 1 nth_digit_in [of "n mod 10"] by (subst digits.simps) simp
  qed
qed

lemma digits_nonempty: "digits n \<noteq> []"
  by (subst digits.simps) simp

lemma parse_digits_snoc:
  "parse_digits acc (cs @ [c]) =
     (case parse_digits acc cs of
        None \<Rightarrow> None
      | Some a \<Rightarrow> (case digit_value c of None \<Rightarrow> None | Some d \<Rightarrow> Some (10 * a + d)))"
  by (induction cs arbitrary: acc) (simp_all split: option.splits)

lemma parse_digits_digits: "parse_digits 0 (digits n) = Some n"
proof (induction n rule: digits.induct)
  case (1 n)
  show ?case
  proof (cases "n < 10")
    case True
    then show ?thesis
      by (subst digits.simps) (simp add: digit_value_nth)
  next
    case False
    then have "parse_digits 0 (digits (n div 10)) = Some (n div 10)"
      using 1 by simp
    with False show ?thesis
      by (subst digits.simps) (simp add: parse_digits_snoc digit_value_nth)
  qed
qed

lemma parse_decimal_digits: "parse_decimal (digits n) = Some n"
  by (simp add: parse_decimal_def digits_nonempty parse_digits_digits)

lemma digits_no_colon: "CHR '':'' \<notin> set (digits n)"
  using digits_chars [of n] by auto

lemma digits_no_dash: "CHR ''-'' \<notin> set (digits n)"
  using digits_chars [of n] by auto

text \<open>Read back under the region grammar, the text that \<^verbatim>\<open>sprintf\<close> wrote names the
  interval that starts one base before \<open>a\<close>.\<close>

lemma parse_region_text:
  assumes "0 \<le> a" and "0 \<le> b"
  shows "parse_region (region_text c a b) = Some (c, a - 1, Some b)"
proof -
  let ?A = "digits (nat a)" and ?B = "digits (nat b)"
  let ?r = "c @ '':'' @ ?A @ ''-'' @ ?B"
  have r: "region_text c a b = ?r"
    using assms by (simp add: region_text_def decimal_def)
  have "\<forall>x \<in> set (rev ?B @ ''-'' @ rev ?A). x \<noteq> CHR '':''"
    using digits_no_colon [of "nat a"] digits_no_colon [of "nat b"] by auto
  then have "takeWhile (\<lambda>x. x \<noteq> CHR '':'') ((rev ?B @ ''-'' @ rev ?A) @ CHR '':'' # rev c)
      = rev ?B @ ''-'' @ rev ?A"
    by (rule takeWhile_upto)
  then have coords: "rev (takeWhile (\<lambda>x. x \<noteq> CHR '':'') (rev ?r)) = ?A @ ''-'' @ ?B"
    by simp
  have "\<forall>x \<in> set ?A. x \<noteq> CHR ''-''"
    using digits_no_dash [of "nat a"] by auto
  then have first: "takeWhile (\<lambda>x. x \<noteq> CHR ''-'') (?A @ ''-'' @ ?B) = ?A"
    using takeWhile_upto [of ?A "CHR ''-''" ?B] by simp
  have colon: "CHR '':'' \<in> set ?r"
    by simp
  show ?thesis
    unfolding r parse_region_def
    using assms colon
    by (simp only: coords first Let_def) (simp add: parse_decimal_digits)
qed

lemma chr1_text: "region_text ''chr1'' 1000 2000 = ''chr1:1000-2000''"
  by code_simp

lemma chr1_region: "parse_region ''chr1:1000-2000'' = Some (''chr1'', 999, Some 2000)"
  by code_simp

lemma chrX_text: "region_text ''chrX'' 1000 2000 = ''chrX:1000-2000''"
  by code_simp

lemma chrX_region: "parse_region ''chrX:1000-2000'' = Some (''chrX'', 999, Some 2000)"
  by code_simp

lemma chrX_name: "parse_region ''chrX'' = Some (''chrX'', 0, None)"
  by code_simp

lemma chr1_name: "parse_region ''chr1'' = Some (''chr1'', 0, None)"
  by code_simp

subsection \<open>Coordinates given as integers\<close>

text \<open>
  What \<^verbatim>\<open>setRegion(file, chromosome, start, end)\<close> asks for: when the text fits the
  buffer, the call is \<^verbatim>\<open>setRegion(file, region)\<close> on the text \<^verbatim>\<open>chromosome:start-end\<close>
  with both numbers printed as they are, and under the region grammar that text names
  the 0-based half-open interval \<open>[start - 1, end)\<close>.
\<close>

lemma setRegion_chr_as_text:
  assumes "length (region_text c a b) < 50"
  shows "setRegion_chr e file c a b s = Inr (setRegion e file (region_text c a b) s)"
    and "last (calls (snd (snd (setRegion e file (region_text c a b) s)))) =
           Sam_itr_querys (hts_index file) (hdr file) (region_text c a b)"
    and "last (calls (snd (snd (setRegion_tid e file tid a b s)))) =
           Sam_itr_queryi (hts_index file) tid a b"
  using assms by (simp_all add: setRegion_chr_eq setRegion_eq setRegion_tid_eq)

text \<open>
  On the simulated library, for every chromosome of the file and all coordinates: the
  overload on a name leaves the iterator on the alignments that overlap
  \<open>[start - 1, end)\<close>, the overload on a reference id on those that overlap
  \<open>[start, end)\<close>.
\<close>

lemma sim_setRegion_chr_cursor:
  assumes "length (region_text c a b) < 50" and "0 \<le> a" and "0 \<le> b"
    and "hts_index file \<noteq> None" and "hdr file \<noteq> None"
    and "ref_id (refs w) c = Some tid"
  shows "setRegion_chr sim_env file c a b \<lparr>world = w, calls = cs\<rparr> =
     Inr (True, file\<lparr>hts_iter := Some 5\<rparr>,
          \<lparr>world = w\<lparr>cursor := filter (overlaps tid (a - 1) (Some b)) (alns (content w))\<rparr>,
           calls = cs
             @ (if hts_iter file \<noteq> None then [Sam_itr_destroy (hts_iter file)] else [])
             @ [Sam_itr_querys (hts_index file) (hdr file) (region_text c a b)]\<rparr>)"
  using assms
  by (cases "hts_iter file")
    (auto simp add: setRegion_chr_eq setRegion_eq destroy_iter_def logged_eq sim_env_def
      sim_querys_def parse_region_text)

lemma sim_setRegion_tid_cursor:
  assumes "hts_index file \<noteq> None" and "0 \<le> tid" and "tid < int (length (refs w))"
  shows "setRegion_tid sim_env file tid a b \<lparr>world = w, calls = cs\<rparr> =
     (True, file\<lparr>hts_iter := Some 5\<rparr>,
      \<lparr>world = w\<lparr>cursor := filter (overlaps tid a (Some b)) (alns (content w))\<rparr>,
       calls = cs
         @ (if hts_iter file \<noteq> None then [Sam_itr_destroy (hts_iter file)] else [])
         @ [Sam_itr_queryi (hts_index file) tid a b]\<rparr>)"
  using assms
  by (cases "hts_iter file")
    (auto simp add: setRegion_tid_eq destroy_iter_def logged_eq sim_env_def sim_queryi_def)

text \<open>
  C3. The claim: \<^verbatim>\<open>setRegion(file, name, start, end)\<close> queries the 0-based half-open
  interval \<open>[start, end)\<close>, so that \<^verbatim>\<open>readRegion\<close> returns exactly the records that
  overlap it. The code prints \<open>start\<close> unconverted into the 1-based inclusive string form
  and so queries one base early. On the spec's own scenario: \<^verbatim>\<open>test.bam\<close> holds one
  alignment, the base at 0-based position 999. After
  \<^verbatim>\<open>setRegion(file, "chr1", 1000, 2000)\<close> the library was asked for \<^verbatim>\<open>chr1:1000-2000\<close>,
  that is \<open>[999, 2000)\<close>, and \<^verbatim>\<open>readRegion\<close> returns that alignment, which does not
  overlap \<open>[1000, 2000)\<close>. After \<^verbatim>\<open>setRegion(file, 0, 1000, 2000)\<close> on the same file, the
  overload on the reference id, the iterator has nothing and \<^verbatim>\<open>readRegion\<close> returns
  false.
\<close>

theorem setRegion_chr_queries_one_base_early:
  "setRegion_chr sim_env indexed_file ''chr1'' 1000 2000 (start opened_bam) =
     Inr (True, indexed_file\<lparr>hts_iter := Some 5\<rparr>,
          \<lparr>world = opened_bam\<lparr>cursor := [(0, 999, 1000)]\<rparr>,
           calls = [Sam_itr_querys (Some 4) (Some 2) ''chr1:1000-2000'']\<rparr>)
   \<and> readRegion sim_env (0, 0, 0) (indexed_file\<lparr>hts_iter := Some 5\<rparr>)
        (start (opened_bam\<lparr>cursor := [(0, 999, 1000)]\<rparr>)) =
     (True, (0, 999, 1000), indexed_file\<lparr>hts_iter := Some 5\<rparr>,
      \<lparr>world = opened_bam\<lparr>cursor := [], raw := (0, 999, 1000)\<rparr>,
       calls = [Sam_itr_next (Some 1) (Some 5) (Some 3)]\<rparr>)
   \<and> \<not> overlaps 0 1000 (Some 2000) (0, 999, 1000)
   \<and> setRegion_tid sim_env indexed_file 0 1000 2000 (start opened_bam) =
     (True, indexed_file\<lparr>hts_iter := Some 5\<rparr>,
      \<lparr>world = opened_bam\<lparr>cursor := []\<rparr>,
       calls = [Sam_itr_queryi (Some 4) 0 1000 2000]\<rparr>)
   \<and> readRegion sim_env (0, 0, 0) (indexed_file\<lparr>hts_iter := Some 5\<rparr>)
        (start (opened_bam\<lparr>cursor := []\<rparr>)) =
     (False, (0, 0, 0), indexed_file\<lparr>hts_iter := Some 5\<rparr>,
      \<lparr>world = opened_bam\<lparr>cursor := []\<rparr>,
       calls = [Sam_itr_next (Some 1) (Some 5) (Some 3)]\<rparr>)"
  by (simp add: setRegion_chr_eq setRegion_eq setRegion_tid_eq destroy_iter_def chr1_text
      chr1_region readRegion_def logged_eq sim_env_def sim_querys_def sim_queryi_def
      sim_itr_next_def start_def opened_bam_def test_bam_def indexed_file_def opened_file_def)

subsection \<open>The previous iterator\<close>

lemma destroy_iter_world:
  "world (destroy_iter e file s) =
     (if hts_iter file \<noteq> None then snd (sam_itr_destroy e (hts_iter file) (world s))
      else world s)"
  by (simp add: destroy_iter_def logged_eq)

text \<open>
  What every \<^verbatim>\<open>setRegion\<close> that returns does, for every library: a non-null previous
  iterator is handed to \<^verbatim>\<open>sam_itr_destroy\<close>, the query runs in the world that the
  destruction left, its result is stored, and the call returns whether the result is
  non-null; so when the query yields no iterator the call returns false and the object
  has no iterator, whatever it had before.
\<close>

lemma setRegion_iterator_protocol:
  "(setRegion e file region s = (ok1, file1, s1) \<longrightarrow>
      calls s1 = calls s
                  @ (if hts_iter file \<noteq> None then [Sam_itr_destroy (hts_iter file)] else [])
                  @ [Sam_itr_querys (hts_index file) (hdr file) region]
      \<and> world s1 = snd (sam_itr_querys e (hts_index file) (hdr file) region
                          (if hts_iter file \<noteq> None
                           then snd (sam_itr_destroy e (hts_iter file) (world s))
                           else world s))
      \<and> hts_iter file1 = fst (sam_itr_querys e (hts_index file) (hdr file) region
                                 (if hts_iter file \<noteq> None
                                  then snd (sam_itr_destroy e (hts_iter file) (world s))
                                  else world s))
      \<and> ok1 = (hts_iter file1 \<noteq> None))
   \<and> (setRegion_chr e file c a b s = Inr (ok2, file2, s2) \<longrightarrow>
      (ok2, file2, s2) = setRegion e file (region_text c a b) s)
   \<and> (setRegion_tid e file tid a b s = (ok3, file3, s3) \<longrightarrow>
      calls s3 = calls s
                  @ (if hts_iter file \<noteq> None then [Sam_itr_destroy (hts_iter file)] else [])
                  @ [Sam_itr_queryi (hts_index file) tid a b]
      \<and> world s3 = snd (sam_itr_queryi e (hts_index file) tid a b
                          (if hts_iter file \<noteq> None
                           then snd (sam_itr_destroy e (hts_iter file) (world s))
                           else world s))
      \<and> hts_iter file3 = fst (sam_itr_queryi e (hts_index file) tid a b
                                 (if hts_iter file \<noteq> None
                                  then snd (sam_itr_destroy e (hts_iter file) (world s))
                                  else world s))
      \<and> ok3 = (hts_iter file3 \<noteq> None))"
  by (auto simp add: setRegion_eq setRegion_chr_eq setRegion_tid_eq destroy_iter_calls
      destroy_iter_world split: if_splits)

text \<open>
  On the simulated library, with an iterator that still has an alignment to deliver: a
  region that does not resolve leaves the old iterator destroyed (its cursor is empty),
  the object without iterator, and the call returns false.
\<close>

lemma setRegion_unresolved_runs:
  "setRegion sim_env (indexed_file\<lparr>hts_iter := Some 5\<rparr>) ''chrX''
       (start (opened_bam\<lparr>cursor := [(0, 999, 1000)]\<rparr>)) =
     (False, indexed_file,
      \<lparr>world = opened_bam,
       calls = [Sam_itr_destroy (Some 5), Sam_itr_querys (Some 4) (Some 2) ''chrX'']\<rparr>)"
  "setRegion_chr sim_env (indexed_file\<lparr>hts_iter := Some 5\<rparr>) ''chrX'' 1000 2000
       (start (opened_bam\<lparr>cursor := [(0, 999, 1000)]\<rparr>)) =
     Inr (False, indexed_file,
          \<lparr>world = opened_bam,
           calls = [Sam_itr_destroy (Some 5),
                    Sam_itr_querys (Some 4) (Some 2) ''chrX:1000-2000'']\<rparr>)"
  "setRegion_tid sim_env (indexed_file\<lparr>hts_iter := Some 5\<rparr>) 7 1000 2000
       (start (opened_bam\<lparr>cursor := [(0, 999, 1000)]\<rparr>)) =
     (False, indexed_file,
      \<lparr>world = opened_bam,
       calls = [Sam_itr_destroy (Some 5), Sam_itr_queryi (Some 4) 7 1000 2000]\<rparr>)"
  "hts_iter indexed_file = None"
  "cursor opened_bam = []"
  by (simp_all add: setRegion_chr_eq setRegion_eq setRegion_tid_eq destroy_iter_def chrX_text
      chrX_region chrX_name logged_eq sim_env_def sim_querys_def sim_queryi_def start_def
      opened_bam_def test_bam_def indexed_file_def opened_file_def)

lemma long_contig_text:
  "region_text long_contig 1000 2000 = ''scaffold_000123_unplaced_genomic_contig_v2:1000-2000''"
  by code_simp

lemma long_contig_region:
  "parse_region ''scaffold_000123_unplaced_genomic_contig_v2:1000-2000'' =
     Some (long_contig, 999, Some 2000)"
  by code_simp

text \<open>
  C4. The claim: for every region argument, \<^verbatim>\<open>setRegion\<close> first destroys the previous
  iterator, and when the region does not resolve it returns false and the object ends
  the call with no iterator. The overload on a chromosome name does not get that far
  when the name is long: \<^verbatim>\<open>sprintf\<close> writes the region into \<^verbatim>\<open>char region[50]\<close>
  unbounded. For a contig name of 42 characters that no reference of the file bears, the
  text takes 52 characters: the previous iterator has been destroyed, \<^verbatim>\<open>sprintf\<close> writes
  past the buffer, and \<^verbatim>\<open>hts_iter\<close> has not been assigned, so it still holds the
  destroyed iterator. The overload on a region string, given the same text, returns
  false and leaves the object without iterator.
\<close>

theorem setRegion_chr_overruns_region_buffer:
  "length long_contig = 42
   \<and> length (region_text long_contig 1000 2000) = 52
   \<and> ref_id (refs opened_bam) long_contig = None
   \<and> setRegion_chr sim_env (indexed_file\<lparr>hts_iter := Some 5\<rparr>) long_contig 1000 2000
        (start (opened_bam\<lparr>cursor := [(0, 999, 1000)]\<rparr>)) = Inl Buffer_overrun
   \<and> destroy_iter sim_env (indexed_file\<lparr>hts_iter := Some 5\<rparr>)
        (start (opened_bam\<lparr>cursor := [(0, 999, 1000)]\<rparr>)) =
       \<lparr>world = opened_bam, calls = [Sam_itr_destroy (Some 5)]\<rparr>
   \<and> hts_iter (indexed_file\<lparr>hts_iter := Some 5\<rparr>) = Some 5
   \<and> setRegion sim_env (indexed_file\<lparr>hts_iter := Some 5\<rparr>)
        ''scaffold_000123_unplaced_genomic_contig_v2:1000-2000''
        (start (opened_bam\<lparr>cursor := [(0, 999, 1000)]\<rparr>)) =
       (False, indexed_file,
        \<lparr>world = opened_bam,
         calls = [Sam_itr_destroy (Some 5),
                  Sam_itr_querys (Some 4) (Some 2)
                    ''scaffold_000123_unplaced_genomic_contig_v2:1000-2000'']\<rparr>)"
proof -
  have n: "length long_contig = 42"
    by (simp add: long_contig_def)
  have r: "''chr1'' \<noteq> long_contig"
    by (simp add: long_contig_def)
  show ?thesis
    by (simp add: n r long_contig_text long_contig_region setRegion_chr_eq setRegion_eq
        destroy_iter_def logged_eq sim_env_def sim_querys_def start_def opened_bam_def
        test_bam_def indexed_file_def opened_file_def)
qed

section \<open>The index\<close>

text \<open>
  C5, as the code has it. Only \<^verbatim>\<open>loadIndex\<close> attaches an index to the object: it
  stores what \<^verbatim>\<open>sam_index_load\<close> returned and returns whether that is non-null.
  \<^verbatim>\<open>buildIndex\<close> returns whether \<^verbatim>\<open>sam_index_build\<close> returned 0 and leaves the object
  as it was, \<^verbatim>\<open>hts_index\<close> included. \<^verbatim>\<open>setRegion\<close> has no test of its own for a missing
  index: it hands \<^verbatim>\<open>hts_index\<close>, null or not, to the query and returns whether the query
  produced an iterator.
\<close>

theorem index_attached_by_loadIndex_only:
  "(loadIndex e file s = (ok1, file1, s1) \<longrightarrow>
      hts_index file1 = fst (sam_index_load e (fp file) (filename file) (world s))
      \<and> ok1 = (hts_index file1 \<noteq> None))
   \<and> (loadIndex_named e file i s = (ok2, file2, s2) \<longrightarrow>
      hts_index file2 = fst (sam_index_load2 e (fp file) (filename file) i (world s))
      \<and> ok2 = (hts_index file2 \<noteq> None))
   \<and> (buildIndex e file m s = (ok3, file3, s3) \<longrightarrow>
      file3 = file \<and> ok3 = (fst (sam_index_build e (filename file) m (world s)) = 0))
   \<and> (buildIndex_named e file i m s = (ok4, file4, s4) \<longrightarrow>
      file4 = file \<and> ok4 = (fst (sam_index_build2 e (filename file) i m (world s)) = 0))
   \<and> (setRegion e file region s = (ok5, file5, s5) \<longrightarrow>
      ok5 = (fst (sam_itr_querys e (hts_index file) (hdr file) region
                    (world (destroy_iter e file s))) \<noteq> None))"
  by (auto simp add: loadIndex_def loadIndex_named_def buildIndex_def buildIndex_named_def
      setRegion_eq logged_eq)

theorem index_attached_by_loadIndex_only_witness:
  "loadIndex sim_env opened_file (start opened_bam) =
     (True, indexed_file,
      \<lparr>world = opened_bam, calls = [Sam_index_load (Some 1) ''test.bam'']\<rparr>)
   \<and> loadIndex_named sim_env opened_file ''test.bai'' (start opened_bam) =
     (True, indexed_file,
      \<lparr>world = opened_bam, calls = [Sam_index_load2 (Some 1) ''test.bam'' ''test.bai'']\<rparr>)
   \<and> buildIndex sim_env opened_file 0 (start opened_bam) =
     (True, opened_file, \<lparr>world = opened_bam, calls = [Sam_index_build ''test.bam'' 0]\<rparr>)
   \<and> buildIndex_named sim_env opened_file ''test.bai'' 0 (start opened_bam) =
     (True, opened_file,
      \<lparr>world = opened_bam, calls = [Sam_index_build2 ''test.bam'' ''test.bai'' 0]\<rparr>)
   \<and> setRegion sim_env opened_file ''chr1'' (start opened_bam) =
     (False, opened_file,
      \<lparr>world = opened_bam, calls = [Sam_itr_querys None (Some 2) ''chr1'']\<rparr>)
   \<and> hts_index indexed_file = Some 4 \<and> hts_index opened_file = None"
  using index_attached_by_loadIndex_only
    [of sim_env opened_file "start opened_bam"
        True indexed_file
        "\<lparr>world = opened_bam, calls = [Sam_index_load (Some 1) ''test.bam'']\<rparr>"
        "''test.bai''" True indexed_file
        "\<lparr>world = opened_bam, calls = [Sam_index_load2 (Some 1) ''test.bam'' ''test.bai'']\<rparr>"
        0 True opened_file
        "\<lparr>world = opened_bam, calls = [Sam_index_build ''test.bam'' 0]\<rparr>"
        True opened_file
        "\<lparr>world = opened_bam, calls = [Sam_index_build2 ''test.bam'' ''test.bai'' 0]\<rparr>"
        "''chr1''" False opened_file
        "\<lparr>world = opened_bam, calls = [Sam_itr_querys None (Some 2) ''chr1'']\<rparr>"]
  by (simp add: loadIndex_def loadIndex_named_def buildIndex_def buildIndex_named_def
      setRegion_eq destroy_iter_def logged_eq sim_env_def sim_querys_def start_def
      opened_bam_def test_bam_def indexed_file_def opened_file_def)

text \<open>
  C5 as stated fails. On a file with no index beside it, \<^verbatim>\<open>buildIndex\<close> returns true and
  the index file exists afterwards, but the object's \<^verbatim>\<open>hts_index\<close> is still null, and
  the \<^verbatim>\<open>setRegion\<close> that follows queries with the null index and returns false (the
  simulated library declines such a query). Once \<^verbatim>\<open>loadIndex\<close> has run, the same
  \<^verbatim>\<open>setRegion\<close> returns true.
\<close>

theorem buildIndex_alone_counterexample:
  "buildIndex sim_env opened_file 0 (start (unindexed_bam\<lparr>stream := [Rec (0, 999, 1000)]\<rparr>)) =
     (True, opened_file, \<lparr>world = opened_bam, calls = [Sam_index_build ''test.bam'' 0]\<rparr>)
   \<and> hts_index opened_file = None
   \<and> setRegion sim_env opened_file ''chr1'' (start opened_bam) =
     (False, opened_file,
      \<lparr>world = opened_bam, calls = [Sam_itr_querys None (Some 2) ''chr1'']\<rparr>)
   \<and> setRegion sim_env indexed_file ''chr1'' (start opened_bam) =
     (True, indexed_file\<lparr>hts_iter := Some 5\<rparr>,
      \<lparr>world = opened_bam\<lparr>cursor := [(0, 999, 1000)]\<rparr>,
       calls = [Sam_itr_querys (Some 4) (Some 2) ''chr1'']\<rparr>)"
  by (simp add: buildIndex_def setRegion_eq destroy_iter_def chr1_name logged_eq sim_env_def
      sim_querys_def start_def unindexed_bam_def opened_bam_def test_bam_def indexed_file_def
      opened_file_def)

section \<open>The end-of-stream flag\<close>

lemma readRecord_times_at_end:
  "at_end f \<Longrightarrow> at_end (fst (snd (readRecord_times e n f s)))"
  by (induction n arbitrary: f s) (simp_all add: readRecord_eq split_beta)

lemma apply_op_at_end:
  "apply_op e x file s = Inr (ok, file', s') \<Longrightarrow>
     at_end file' = (at_end file \<or> (is_readRecord x \<and> \<not> ok))"
proof (cases x)
  case Open
  then show ?thesis if "apply_op e x file s = Inr (ok, file', s')"
    using that by (simp add: HtsFile_open_at_end)
qed (auto simp add: open_file_def open_stream_def copyHeader_def copyRecord_def loadIndex_def
      loadIndex_named_def buildIndex_def buildIndex_named_def setRegion_eq setRegion_chr_eq
      setRegion_tid_eq atEnd_def readRecord_eq readRecord_seq_def readRecord_bam_def
      readRegion_def writeHeader_def writeRecord_def writeRecord_bam_def logged_eq
      dest: HtsFile_open_at_end split: if_splits prod.splits)

lemma run_at_end:
  "at_end f \<Longrightarrow> run e ops f s = Inr (f', s') \<Longrightarrow> at_end f'"
proof (induction ops arbitrary: f s)
  case Nil
  then show ?case by simp
next
  case (Cons x xs)
  then show ?case
    by (auto split: sum.splits dest: apply_op_at_end)
qed

text \<open>
  C6, as the code has it. Once a \<^verbatim>\<open>readRecord\<close> has failed, \<^verbatim>\<open>atEnd\<close> is true and
  stays true through any number of further \<^verbatim>\<open>readRecord\<close> calls. A further
  \<^verbatim>\<open>readRecord\<close> does not look at the flag: it calls \<^verbatim>\<open>sam_read1\<close> again and returns
  false exactly when \<^verbatim>\<open>sam_read1\<close> fails again.
\<close>

theorem failed_readRecord_sets_flag_for_good:
  assumes "readRecord e file s = (False, file', s')"
  shows "atEnd file'
    \<and> (\<forall>n. atEnd (fst (snd (readRecord_times e n file' s'))))
    \<and> fst (readRecord e file' s') =
        hts_ok (fst (sam_read1 e (fp file') (hdr file') (hts_record file') (world s')))"
proof -
  from assms have "at_end file'"
    by (auto simp add: readRecord_eq split: if_splits)
  then show ?thesis
    by (simp add: atEnd_def readRecord_times_at_end readRecord_eq hts_ok_def)
qed

theorem failed_readRecord_sets_flag_for_good_witness:
  "readRecord sim_env opened_file (start test_bam) =
     (False, opened_file\<lparr>at_end := True\<rparr>,
      \<lparr>world = test_bam, calls = [Sam_read1 (Some 1) (Some 2) (Some 3)]\<rparr>)
   \<and> atEnd (opened_file\<lparr>at_end := True\<rparr>)
   \<and> (\<forall>n. atEnd (fst (snd (readRecord_times sim_env n (opened_file\<lparr>at_end := True\<rparr>)
          \<lparr>world = test_bam, calls = [Sam_read1 (Some 1) (Some 2) (Some 3)]\<rparr>))))
   \<and> fst (readRecord sim_env (opened_file\<lparr>at_end := True\<rparr>)
          \<lparr>world = test_bam, calls = [Sam_read1 (Some 1) (Some 2) (Some 3)]\<rparr>) = False"
proof -
  have r: "readRecord sim_env opened_file (start test_bam) =
     (False, opened_file\<lparr>at_end := True\<rparr>,
      \<lparr>world = test_bam, calls = [Sam_read1 (Some 1) (Some 2) (Some 3)]\<rparr>)"
    by (simp add: readRecord_eq sim_env_def sim_read1_def start_def test_bam_def
        opened_file_def)
  have "\<not> hts_ok (fst (sam_read1 sim_env (fp (opened_file\<lparr>at_end := True\<rparr>))
      (hdr (opened_file\<lparr>at_end := True\<rparr>)) (hts_record (opened_file\<lparr>at_end := True\<rparr>))
      (world \<lparr>world = test_bam, calls = [Sam_read1 (Some 1) (Some 2) (Some 3)]\<rparr>)))"
    by (simp add: hts_ok_def sim_env_def sim_read1_def test_bam_def)
  then show ?thesis
    using r failed_readRecord_sets_flag_for_good [OF r] by simp
qed

text \<open>
  C6 as stated fails. The file is SAM text whose first line does not parse and whose
  second line is an alignment. The first \<^verbatim>\<open>readRecord\<close> fails and sets the flag; the
  next one reads the alignment and returns true, while \<^verbatim>\<open>atEnd\<close> is still true.
\<close>

theorem readRecord_after_failure_counterexample:
  "readRecord sim_env opened_file
       (start (garbled_sam\<lparr>stream := [Garbled, Rec (0, 999, 1000)]\<rparr>)) =
     (False, opened_file\<lparr>at_end := True\<rparr>,
      \<lparr>world = garbled_sam\<lparr>stream := [Rec (0, 999, 1000)]\<rparr>,
       calls = [Sam_read1 (Some 1) (Some 2) (Some 3)]\<rparr>)
   \<and> readRecord sim_env (opened_file\<lparr>at_end := True\<rparr>)
       (start (garbled_sam\<lparr>stream := [Rec (0, 999, 1000)]\<rparr>)) =
     (True, opened_file\<lparr>at_end := True\<rparr>,
      \<lparr>world = garbled_sam\<lparr>stream := [], raw := (0, 999, 1000)\<rparr>,
       calls = [Sam_read1 (Some 1) (Some 2) (Some 3)]\<rparr>)
   \<and> atEnd (opened_file\<lparr>at_end := True\<rparr>)"
  by (simp add: readRecord_eq atEnd_def sim_env_def sim_read1_def start_def garbled_sam_def
      test_bam_def opened_file_def)

text \<open>
  C7, as the code has it. Once the flag is true, no sequence of operations of the header
  on the object makes it false again, opening included: \<^verbatim>\<open>open()\<close> and both
  \<^verbatim>\<open>open(target, ...)\<close> leave \<^verbatim>\<open>at_end\<close> as it was. Only a constructor sets it to
  false.
\<close>

theorem at_end_never_reset:
  "(at_end file \<and> run e ops file s = Inr (file', s') \<longrightarrow> at_end file')
   \<and> (HtsFile_open e file s = Inr (ok1, file1, s1) \<longrightarrow> at_end file1 = at_end file)
   \<and> (open_file e file name s = Inr (ok2, file2, s2) \<longrightarrow> at_end file2 = at_end file)
   \<and> (open_stream e file s = Inr (ok3, file3, s3) \<longrightarrow> at_end file3 = at_end file)
   \<and> (HtsFile_named e name mode s = Inr (ok4, file4, s4) \<longrightarrow> \<not> at_end file4)
   \<and> \<not> at_end (HtsFile_empty mode)"
  using run_at_end [of "file" e ops s file' s']
    HtsFile_open_at_end [of e "file" s ok1 file1 s1]
    HtsFile_open_at_end [of e "file\<lparr>filename := name\<rparr>" s ok2 file2 s2]
    HtsFile_open_at_end [of e "file\<lparr>filename := ''-''\<rparr>" s ok3 file3 s3]
    HtsFile_open_at_end [of e _ s ok4 file4 s4]
  by (auto simp add: open_file_def open_stream_def HtsFile_named_def HtsFile_empty_def)

theorem at_end_never_reset_witness:
  "at_end (opened_file\<lparr>at_end := True\<rparr>)
   \<and> run sim_env [Open_file ''test.bam'', ReadRecord] (opened_file\<lparr>at_end := True\<rparr>)
        (start test_bam) =
     Inr (opened_file\<lparr>at_end := True\<rparr>,
          \<lparr>world = test_bam\<lparr>raw := (0, 999, 1000)\<rparr>,
           calls = [Hts_open ''test.bam'' ''r'', Sam_hdr_read (Some 1), Bam_init1,
                    Sam_read1 (Some 1) (Some 2) (Some 3)]\<rparr>)
   \<and> HtsFile_open sim_env (opened_file\<lparr>at_end := True\<rparr>) (start test_bam) =
     Inr (True, opened_file\<lparr>at_end := True\<rparr>,
          \<lparr>world = opened_bam,
           calls = [Hts_open ''test.bam'' ''r'', Sam_hdr_read (Some 1), Bam_init1]\<rparr>)
   \<and> open_file sim_env (opened_file\<lparr>at_end := True\<rparr>) ''test.bam'' (start test_bam) =
     Inr (True, opened_file\<lparr>at_end := True\<rparr>,
          \<lparr>world = opened_bam,
           calls = [Hts_open ''test.bam'' ''r'', Sam_hdr_read (Some 1), Bam_init1]\<rparr>)
   \<and> open_stream sim_env (opened_file\<lparr>at_end := True\<rparr>) (start test_bam) =
     Inr (True, opened_file\<lparr>filename := ''-'', at_end := True\<rparr>,
          \<lparr>world = opened_bam,
           calls = [Hts_open ''-'' ''r'', Sam_hdr_read (Some 1), Bam_init1]\<rparr>)
   \<and> HtsFile_named sim_env ''test.bam'' (C_str 1 ''r'') (start test_bam) =
     Inr (True, opened_file,
          \<lparr>world = opened_bam,
           calls = [Hts_open ''test.bam'' ''r'', Sam_hdr_read (Some 1), Bam_init1]\<rparr>)
   \<and> \<not> at_end opened_file"
  using at_end_never_reset
    [of "opened_file\<lparr>at_end := True\<rparr>" sim_env "[Open_file ''test.bam'', ReadRecord]"
        "start test_bam" "opened_file\<lparr>at_end := True\<rparr>"
        "\<lparr>world = test_bam\<lparr>raw := (0, 999, 1000)\<rparr>,
          calls = [Hts_open ''test.bam'' ''r'', Sam_hdr_read (Some 1), Bam_init1,
                   Sam_read1 (Some 1) (Some 2) (Some 3)]\<rparr>"
        True "opened_file\<lparr>at_end := True\<rparr>"
        "\<lparr>world = opened_bam,
          calls = [Hts_open ''test.bam'' ''r'', Sam_hdr_read (Some 1), Bam_init1]\<rparr>"
        "''test.bam''" True "opened_file\<lparr>at_end := True\<rparr>"
        "\<lparr>world = opened_bam,
          calls = [Hts_open ''test.bam'' ''r'', Sam_hdr_read (Some 1), Bam_init1]\<rparr>"
        True "opened_file\<lparr>filename := ''-'', at_end := True\<rparr>"
        "\<lparr>world = opened_bam,
          calls = [Hts_open ''-'' ''r'', Sam_hdr_read (Some 1), Bam_init1]\<rparr>"
        "C_str 1 ''r''" True opened_file
        "\<lparr>world = opened_bam,
          calls = [Hts_open ''test.bam'' ''r'', Sam_hdr_read (Some 1), Bam_init1]\<rparr>"]
  by (simp add: open_file_def open_stream_def HtsFile_named_def HtsFile_open_def readRecord_eq
      read_mode_def lit_def pooled_def logged_eq sim_env_def sim_read1_def start_def opened_bam_def test_bam_def
      opened_file_def)

text \<open>
  C7 as stated fails in its second half. The only record of \<^verbatim>\<open>test.bam\<close> has been
  read; the next \<^verbatim>\<open>readRecord\<close> fails and sets the flag. Opening the file again on the
  same object returns true and the flag is still true; the first record is then read
  again, with \<^verbatim>\<open>atEnd\<close> true throughout.
\<close>

theorem reopen_keeps_at_end_counterexample:
  "readRecord sim_env opened_file (start test_bam) =
     (False, opened_file\<lparr>at_end := True\<rparr>,
      \<lparr>world = test_bam, calls = [Sam_read1 (Some 1) (Some 2) (Some 3)]\<rparr>)
   \<and> open_file sim_env (opened_file\<lparr>at_end := True\<rparr>) ''test.bam'' (start test_bam) =
     Inr (True, opened_file\<lparr>at_end := True\<rparr>,
          \<lparr>world = opened_bam,
           calls = [Hts_open ''test.bam'' ''r'', Sam_hdr_read (Some 1), Bam_init1]\<rparr>)
   \<and> atEnd (opened_file\<lparr>at_end := True\<rparr>)
   \<and> readRecord sim_env (opened_file\<lparr>at_end := True\<rparr>) (start opened_bam) =
     (True, opened_file\<lparr>at_end := True\<rparr>,
      \<lparr>world = test_bam\<lparr>raw := (0, 999, 1000)\<rparr>,
       calls = [Sam_read1 (Some 1) (Some 2) (Some 3)]\<rparr>)"
  by (simp add: open_file_def HtsFile_open_def readRecord_eq atEnd_def read_mode_def lit_def pooled_def logged_eq
      sim_env_def sim_read1_def start_def opened_bam_def test_bam_def opened_file_def)

text \<open>
  C9. \<^verbatim>\<open>readRegion\<close> leaves the flag as it was, whatever it returns; and an operation
  after which the flag differs is one of the three \<^verbatim>\<open>readRecord\<close> overloads, has
  returned false, and has set the flag.
\<close>

theorem readRegion_keeps_at_end:
  "(readRegion e record file s = (ok1, record1, file1, s1) \<longrightarrow>
      at_end file1 = at_end file \<and> atEnd file1 = atEnd file)
   \<and> (apply_op e x file s = Inr (ok, file', s') \<and> at_end file' \<noteq> at_end file
        \<longrightarrow> is_readRecord x \<and> \<not> ok \<and> at_end file')"
  using apply_op_at_end [of e x "file" s ok file' s']
  by (auto simp add: readRegion_def logged_eq atEnd_def split: if_splits)

theorem readRegion_keeps_at_end_witness:
  "readRegion sim_env (7, 7, 7) (indexed_file\<lparr>hts_iter := Some 5\<rparr>)
       (start (test_bam\<lparr>cursor := [(0, 999, 1000)]\<rparr>)) =
     (True, (0, 999, 1000), indexed_file\<lparr>hts_iter := Some 5\<rparr>,
      \<lparr>world = test_bam\<lparr>raw := (0, 999, 1000)\<rparr>,
       calls = [Sam_itr_next (Some 1) (Some 5) (Some 3)]\<rparr>)
   \<and> at_end (indexed_file\<lparr>hts_iter := Some 5\<rparr>) = False
   \<and> apply_op sim_env ReadRecord (indexed_file\<lparr>hts_iter := Some 5\<rparr>)
       (start (test_bam\<lparr>cursor := [(0, 999, 1000)]\<rparr>)) =
     Inr (False, indexed_file\<lparr>hts_iter := Some 5, at_end := True\<rparr>,
          \<lparr>world = test_bam\<lparr>cursor := [(0, 999, 1000)]\<rparr>,
           calls = [Sam_read1 (Some 1) (Some 2) (Some 3)]\<rparr>)
   \<and> at_end (indexed_file\<lparr>hts_iter := Some 5, at_end := True\<rparr>)
   \<and> is_readRecord (ReadRecord :: (aln, aln) op)"
proof -
  have r: "readRegion sim_env (7, 7, 7) (indexed_file\<lparr>hts_iter := Some 5\<rparr>)
       (start (test_bam\<lparr>cursor := [(0, 999, 1000)]\<rparr>)) =
     (True, (0, 999, 1000), indexed_file\<lparr>hts_iter := Some 5\<rparr>,
      \<lparr>world = test_bam\<lparr>raw := (0, 999, 1000)\<rparr>,
       calls = [Sam_itr_next (Some 1) (Some 5) (Some 3)]\<rparr>)"
    by (simp add: readRegion_def logged_eq sim_env_def sim_itr_next_def start_def
        test_bam_def indexed_file_def opened_file_def)
  have a: "apply_op sim_env ReadRecord (indexed_file\<lparr>hts_iter := Some 5\<rparr>)
       (start (test_bam\<lparr>cursor := [(0, 999, 1000)]\<rparr>)) =
     Inr (False, indexed_file\<lparr>hts_iter := Some 5, at_end := True\<rparr>,
          \<lparr>world = test_bam\<lparr>cursor := [(0, 999, 1000)]\<rparr>,
           calls = [Sam_read1 (Some 1) (Some 2) (Some 3)]\<rparr>)"
    by (simp add: readRecord_eq sim_env_def sim_read1_def start_def test_bam_def
        indexed_file_def opened_file_def)
  have f: "at_end (indexed_file\<lparr>hts_iter := Some 5\<rparr>) = False"
    by (simp add: indexed_file_def opened_file_def)
  show ?thesis
    using r a f
      readRegion_keeps_at_end
        [of sim_env "(7, 7, 7)" "indexed_file\<lparr>hts_iter := Some 5\<rparr>"
            "start (test_bam\<lparr>cursor := [(0, 999, 1000)]\<rparr>)"
            True "(0, 999, 1000)" "indexed_file\<lparr>hts_iter := Some 5\<rparr>"
            "\<lparr>world = test_bam\<lparr>raw := (0, 999, 1000)\<rparr>,
              calls = [Sam_itr_next (Some 1) (Some 5) (Some 3)]\<rparr>"
            ReadRecord False "indexed_file\<lparr>hts_iter := Some 5, at_end := True\<rparr>"
            "\<lparr>world = test_bam\<lparr>cursor := [(0, 999, 1000)]\<rparr>,
              calls = [Sam_read1 (Some 1) (Some 2) (Some 3)]\<rparr>"]
    by simp
qed

section \<open>The caller's record\<close>

text \<open>
  C10. When \<^verbatim>\<open>readRecord(record, file)\<close>, for either record type, or
  \<^verbatim>\<open>readRegion(record, file)\<close> returns false, the caller's record is what it was: the
  transcoder runs in the success branch only.
\<close>

theorem failed_read_keeps_record:
  "(readRecord_seq e record file s = (False, record1, file1, s1) \<longrightarrow> record1 = record)
   \<and> (readRecord_bam e brecord file s = (False, brecord2, file2, s2) \<longrightarrow> brecord2 = brecord)
   \<and> (readRegion e record file s = (False, record3, file3, s3) \<longrightarrow> record3 = record)"
  by (auto simp add: readRecord_seq_def readRecord_bam_def readRegion_def logged_eq
      split: prod.splits if_splits)

theorem failed_read_keeps_record_witness:
  "readRecord_seq sim_env (7, 7, 7) opened_file (start test_bam) =
     (False, (7, 7, 7), opened_file\<lparr>at_end := True\<rparr>,
      \<lparr>world = test_bam, calls = [Sam_read1 (Some 1) (Some 2) (Some 3)]\<rparr>)
   \<and> readRecord_bam sim_env (8, 8, 8) opened_file (start test_bam) =
     (False, (8, 8, 8), opened_file\<lparr>at_end := True\<rparr>,
      \<lparr>world = test_bam, calls = [Sam_read1 (Some 1) (Some 2) (Some 3)]\<rparr>)
   \<and> readRegion sim_env (7, 7, 7) opened_file (start test_bam) =
     (False, (7, 7, 7), opened_file,
      \<lparr>world = test_bam, calls = [Sam_itr_next (Some 1) None (Some 3)]\<rparr>)"
  using failed_read_keeps_record
    [of sim_env "(7, 7, 7)" opened_file "start test_bam" "(7, 7, 7)"
        "opened_file\<lparr>at_end := True\<rparr>"
        "\<lparr>world = test_bam, calls = [Sam_read1 (Some 1) (Some 2) (Some 3)]\<rparr>"
        "(8, 8, 8)" "(8, 8, 8)" "opened_file\<lparr>at_end := True\<rparr>"
        "\<lparr>world = test_bam, calls = [Sam_read1 (Some 1) (Some 2) (Some 3)]\<rparr>"
        "(7, 7, 7)" opened_file
        "\<lparr>world = test_bam, calls = [Sam_itr_next (Some 1) None (Some 3)]\<rparr>"]
  by (simp add: readRecord_seq_def readRecord_bam_def readRegion_def readRecord_eq logged_eq
      sim_env_def sim_read1_def sim_itr_next_def start_def test_bam_def opened_file_def)

section \<open>Destruction\<close>

text \<open>
  C8, as the code has it. The destructor calls \<^verbatim>\<open>bam_hdr_destroy(hdr)\<close> and then
  \<^verbatim>\<open>hts_close(fp)\<close>, in that order, once each and whatever the two pointers are; on an
  object that was never opened both calls receive null. It assigns no field, and the
  header has no \<^verbatim>\<open>close()\<close>.
\<close>

theorem destroy_releases_header_then_stream:
  "calls (HtsFile_destroy e file s) = calls s @ [Bam_hdr_destroy (hdr file), Hts_close (fp file)]
   \<and> world (HtsFile_destroy e file s) =
       snd (hts_close e (fp file) (snd (bam_hdr_destroy e (hdr file) (world s))))
   \<and> calls (HtsFile_destroy e (HtsFile_empty mode) s) =
       calls s @ [Bam_hdr_destroy None, Hts_close None]"
  by (simp add: HtsFile_destroy_def logged_eq HtsFile_empty_def)

text \<open>
  C8 as stated fails in its first part: tearing the object down is not idempotent. A
  second teardown of an opened object hands the header and the stream that the first
  one released to \<^verbatim>\<open>bam_hdr_destroy\<close> and \<^verbatim>\<open>hts_close\<close> again.
\<close>

theorem destroy_twice_counterexample:
  "calls (HtsFile_destroy sim_env opened_file (start opened_bam)) =
     [Bam_hdr_destroy (Some 2), Hts_close (Some 1)]
   \<and> calls (HtsFile_destroy sim_env opened_file
              (HtsFile_destroy sim_env opened_file (start opened_bam))) =
     [Bam_hdr_destroy (Some 2), Hts_close (Some 1), Bam_hdr_destroy (Some 2), Hts_close (Some 1)]"
  by (simp add: HtsFile_destroy_def logged_eq opened_file_def start_def)

end
